theory Spec2Isabelle
  imports Main
begin

section \<open>Python exceptions\<close>

text \<open>
  A raised exception is an object of some class. What an \<^verbatim>\<open>except C:\<close> clause looks at is
  whether the object is an instance of \<^verbatim>\<open>C\<close>, that is whether \<^verbatim>\<open>C\<close> occurs among the
  classes of the object's type (its method resolution order). An exception is therefore
  modelled by the names of those classes, most derived first, and its arguments.
  A function that may raise returns \<open>py_exception + 'a\<close>, with \<open>Inl\<close> the raised exception.
\<close>

record py_exception =
  mro :: "string list"
  args :: string

definition isinstance :: "py_exception \<Rightarrow> string \<Rightarrow> bool" where
  "isinstance e c = (c \<in> set (mro e))"

section \<open>The Impala backend: \<^verbatim>\<open>compile\<close> and \<^verbatim>\<open>verify\<close>\<close>

text \<open>
  \<^verbatim>\<open>ibis/backends/impala/__init__.py\<close> imports \<^verbatim>\<open>to_sql\<close> and \<^verbatim>\<open>dialect\<close> from the
  backend's \<^verbatim>\<open>compiler\<close> module. They are parameters of the model: \<open>make_context\<close> is
  \<^verbatim>\<open>dialect.make_context(params=...)\<close>, and either call may raise.
\<close>

record ('x, 'p, 'c) compiler_module =
  make_context :: "'p option \<Rightarrow> py_exception + 'c"
  to_sql :: "'x \<Rightarrow> 'c \<Rightarrow> py_exception + string"

text \<open>
  \<^verbatim>\<open>
  def compile(expr, params=None):
      from .compiler import to_sql
      return to_sql(expr, dialect.make_context(params=params))
  \<close>
  The argument \<^verbatim>\<open>dialect.make_context(params=params)\<close> is evaluated before \<^verbatim>\<open>to_sql\<close> is
  called; an exception it raises leaves \<^verbatim>\<open>compile\<close> at once.
\<close>

definition compile :: "('x, 'p, 'c) compiler_module \<Rightarrow> 'x \<Rightarrow> 'p option \<Rightarrow> py_exception + string" where
  "compile m expr params =
     (case make_context m params of
        Inl e \<Rightarrow> Inl e
      | Inr ctx \<Rightarrow> to_sql m expr ctx)"

text \<open>
  \<^verbatim>\<open>
  def verify(expr, params=None):
      try:
          compile(expr, params=params)
          return True
      except com.TranslationError:
          return False
  \<close>
\<close>

definition verify :: "('x, 'p, 'c) compiler_module \<Rightarrow> 'x \<Rightarrow> 'p option \<Rightarrow> py_exception + bool" where
  "verify m expr params =
     (case compile m expr params of
        Inr sql \<Rightarrow> Inr True
      | Inl e \<Rightarrow> if isinstance e ''TranslationError'' then Inr False else Inl e)"

section \<open>The Impala backend: \<^verbatim>\<open>connect\<close>\<close>

text \<open>
  The arguments of \<^verbatim>\<open>connect\<close>, with the defaults of its signature. The first ten are
  collected in the dictionary \<^verbatim>\<open>params\<close>; \<^verbatim>\<open>pool_size\<close> and \<^verbatim>\<open>hdfs_client\<close> are
  passed on their own.
\<close>

record connection_params =
  host :: string
  port :: int
  database :: string
  timeout :: int
  use_ssl :: bool
  ca_cert :: "string option"
  user :: "string option"
  password :: "string option"
  auth_mechanism :: string
  kerberos_service_name :: string

record 'h connect_args = connection_params +
  pool_size :: int
  hdfs_client :: "'h option"

definition default_args :: "'h connect_args" where
  "default_args =
     \<lparr>host = ''localhost'', port = 21050, database = ''default'', timeout = 45,
      use_ssl = False, ca_cert = None, user = None, password = None,
      auth_mechanism = ''NOSASL'', kerberos_service_name = ''impala'',
      pool_size = 8, hdfs_client = None\<rparr>"

definition params_of :: "'h connect_args \<Rightarrow> connection_params" where
  "params_of a =
     \<lparr>host = host a, port = port a, database = database a, timeout = timeout a,
      use_ssl = use_ssl a, ca_cert = ca_cert a, user = user a, password = password a,
      auth_mechanism = auth_mechanism a,
      kerberos_service_name = kerberos_service_name a\<rparr>"

text \<open>
  The classes \<^verbatim>\<open>ImpalaConnection\<close> and \<^verbatim>\<open>ImpalaClient\<close> come from the backend's
  \<^verbatim>\<open>client\<close> module and are parameters of the model: the two constructors and the
  connection's \<^verbatim>\<open>close\<close> method, each of which may raise. \<open>close\<close> yields \<open>None\<close> when
  it returns and \<open>Some e\<close> when it raises \<open>e\<close>. The constructors are given no access to
  the option registry.
\<close>

record ('con, 'cl, 'h) client_module =
  ImpalaConnection :: "int \<Rightarrow> connection_params \<Rightarrow> py_exception + 'con"
  ImpalaClient :: "'con \<Rightarrow> 'h option \<Rightarrow> py_exception + 'cl"
  close :: "'con \<Rightarrow> py_exception option"

text \<open>
  \<^verbatim>\<open>ibis.config.options\<close> is the process-wide option registry: a value for each option
  name. An option holds \<^verbatim>\<open>None\<close>, a backend client, or some other setting.
\<close>

datatype 'cl option_value = PyNone | Client 'cl | Setting string

text \<open>
  The state \<^verbatim>\<open>connect\<close> acts on: the option registry, and the connections on which
  \<^verbatim>\<open>close()\<close> has been called, in call order.
\<close>

record ('con, 'cl) process =
  options :: "string \<Rightarrow> 'cl option_value"
  close_calls :: "'con list"

text \<open>
  \<^verbatim>\<open>
  con = ImpalaConnection(pool_size=pool_size, **params)
  try:
      client = ImpalaClient(con, hdfs_client=hdfs_client)
  except Exception:
      con.close()
      raise
  else:
      if options.default_backend is None:
          options.default_backend = client
  return client
  \<close>
  The handler catches instances of \<^verbatim>\<open>Exception\<close> only. An exception raised by
  \<^verbatim>\<open>con.close()\<close> inside the handler replaces the one being handled; otherwise the bare
  \<^verbatim>\<open>raise\<close> re-raises the original.
\<close>

definition connect ::
  "('con, 'cl, 'h) client_module \<Rightarrow> 'h connect_args \<Rightarrow> ('con, 'cl) process
     \<Rightarrow> (py_exception + 'cl) \<times> ('con, 'cl) process" where
  "connect m a s =
     (case ImpalaConnection m (pool_size a) (params_of a) of
        Inl e \<Rightarrow> (Inl e, s)
      | Inr con \<Rightarrow>
          (case ImpalaClient m con (hdfs_client a) of
             Inl e \<Rightarrow>
               if isinstance e ''Exception'' then
                 (case close m con of
                    Some e' \<Rightarrow> (Inl e', s\<lparr>close_calls := close_calls s @ [con]\<rparr>)
                  | None \<Rightarrow> (Inl e, s\<lparr>close_calls := close_calls s @ [con]\<rparr>))
               else (Inl e, s)
           | Inr client \<Rightarrow>
               (Inr client,
                if options s ''default_backend'' = PyNone
                then s\<lparr>options := (options s)(''default_backend'' := Client client)\<rparr>
                else s)))"

section \<open>Types, schemas and expression nodes\<close>

text \<open>
  The UDF framework and the construction of projections live in \<^verbatim>\<open>ibis.udf\<close> and
  \<^verbatim>\<open>ibis.expr\<close>. The repository files at hand only call them (the tests of
  \<^verbatim>\<open>test_vectorized_udf.py\<close>), so the definitions of this and the next section follow
  the specification's data model and contracts sentence by sentence.
\<close>

text \<open>
  Modelled from the spec: the type descriptors of its data model, a primitive kind or a
  struct with an ordered list of named fields. A schema is an ordered list of column
  names with their types; its names are unique.
\<close>

datatype dtype = Primitive string | Struct "(string \<times> dtype) list"

type_synonym schema = "(string \<times> dtype) list"

datatype category = Elementwise | Analytic | Reduction

text \<open>Modelled from the spec: the error kinds of its error handling design.\<close>

datatype error_kind =
    TypeError string
  | ArityError
  | BindingError
  | ExpressionError string
  | TranslationError

text \<open>
  Modelled from the spec: the expression nodes the rewriter handles. \<open>Column\<close> refers
  to a column of the source, \<open>UDFNode\<close> carries category, input expressions, output
  type and the function handle (opaque, a number here), and \<open>FieldOf node f\<close> is the
  extraction of field \<open>f\<close> from the struct that \<open>node\<close> produces.
\<close>

datatype expr =
    Column string
  | UDFNode category "expr list" dtype nat
  | FieldOf expr string

text \<open>Modelled from the spec: the UDF descriptor.\<close>

record udf_descriptor =
  category :: category
  input_types :: "dtype list"
  output_type :: dtype
  function_handle :: nat

text \<open>
  Modelled from the spec: the destructured reference, a marker made from the result of a
  struct-output UDF call that carries the struct's field schema. What \<^verbatim>\<open>invoke\<close> yields,
  and what a requested output list holds, is a plain node or such a reference waiting
  to be expanded.
\<close>

datatype struct_ref = Destructured expr schema

datatype item = Node expr | Destructure struct_ref

text \<open>
  Modelled from the spec: \<^verbatim>\<open>invoke(descriptor, positional_exprs, keyword_values)\<close>. The
  positional expressions are bound one to one to the declared input types, and a
  different number of them is an \<open>ArityError\<close>. The keyword values go to the function
  handle unchecked and leave no trace in the node. A struct output type gives a
  destructured reference.
\<close>

definition invoke :: "udf_descriptor \<Rightarrow> expr list \<Rightarrow> (string \<times> string) list \<Rightarrow> error_kind + item" where
  "invoke d positional_exprs keyword_values =
     (if length positional_exprs \<noteq> length (input_types d) then Inl ArityError
      else
        let node = UDFNode (category d) positional_exprs (output_type d) (function_handle d)
        in Inr (case output_type d of
                  Struct flds \<Rightarrow> Destructure (Destructured node flds)
                | Primitive k \<Rightarrow> Node node))"

section \<open>The destructure rewriter\<close>

text \<open>
  Modelled from the spec: \<^verbatim>\<open>destructure(struct_ref)\<close>, one entry per field of the struct's
  schema, in schema order, each the extraction of that field from the struct-producing
  node.
\<close>

fun destructure :: "struct_ref \<Rightarrow> (string \<times> expr) list" where
  "destructure (Destructured node flds) = map (\<lambda>(f, t). (f, FieldOf node f)) flds"

text \<open>
  Modelled from the spec: a destructure call bound to an explicit output name. The
  requested output list of a projection pairs each value with a name or none.
\<close>

fun named_destructure :: "(string option \<times> item) list \<Rightarrow> bool" where
  "named_destructure [] = False"
| "named_destructure ((Some n, Destructure r) # rest) = True"
| "named_destructure (other # rest) = named_destructure rest"

text \<open>
  Modelled from the spec: step 1 of the splicing rule. The requested list is walked
  left to right; a destructure expansion is replaced, where it stands, by its field
  entries, and every other entry is taken unchanged. An entry remembers whether it
  came from an expansion.
\<close>

datatype entry = Expanded string expr | Explicit "string option" expr

fun expand :: "(string option \<times> item) list \<Rightarrow> entry list" where
  "expand [] = []"
| "expand ((name, Node e) # rest) = Explicit name e # expand rest"
| "expand ((name, Destructure r) # rest) =
     map (\<lambda>(f, e). Expanded f e) (destructure r) @ expand rest"

fun expanded_fields :: "entry list \<Rightarrow> (string \<times> expr) list" where
  "expanded_fields [] = []"
| "expanded_fields (Expanded f e # es) = (f, e) # expanded_fields es"
| "expanded_fields (Explicit n e # es) = expanded_fields es"

fun explicit_names :: "entry list \<Rightarrow> string list" where
  "explicit_names [] = []"
| "explicit_names (Explicit (Some n) e # es) = n # explicit_names es"
| "explicit_names (other # es) = explicit_names es"

text \<open>
  Modelled from the spec: step 4 of the splicing rule and testable property 6. Two
  destructured fields with one output name, or a destructured field and an explicit
  entry with one output name, are a conflict.
\<close>

definition conflict :: "entry list \<Rightarrow> bool" where
  "conflict es =
     (\<not> distinct (map fst (expanded_fields es)) \<or>
      list_ex (\<lambda>n. n \<in> set (explicit_names es)) (map fst (expanded_fields es)))"

text \<open>
  Modelled from the spec: step 2 of the splicing rule. A source column whose name is
  that of a destructured field keeps its position and takes the field's expression;
  any other source column stays as it is.
\<close>

definition in_place :: "(string \<times> expr) list \<Rightarrow> string \<Rightarrow> string option \<times> expr" where
  "in_place flds c =
     (case map_of flds c of Some e \<Rightarrow> (Some c, e) | None \<Rightarrow> (Some c, Column c))"

text \<open>
  Modelled from the spec: step 3 of the splicing rule. The destructured fields that
  match no source column come after all source columns, in the order of the walk.
  The rule says of an explicit entry only that it is taken unchanged; it is kept in the
  same walk order.
\<close>

fun appended :: "string list \<Rightarrow> entry list \<Rightarrow> (string option \<times> expr) list" where
  "appended cols [] = []"
| "appended cols (Expanded f e # es) =
     (if f \<in> set cols then appended cols es else (Some f, e) # appended cols es)"
| "appended cols (Explicit n e # es) = (n, e) # appended cols es"

text \<open>
  Modelled from the spec: the splicing rule as a whole, a function of the source schema
  and the requested output list.
\<close>

definition splice_outputs ::
  "schema \<Rightarrow> (string option \<times> item) list \<Rightarrow> error_kind + (string option \<times> expr) list" where
  "splice_outputs source requested =
     (let es = expand requested; cols = map fst source in
      if conflict es then Inl (ExpressionError ''duplicate output column name'')
      else Inr (map (in_place (expanded_fields es)) cols @ appended cols es))"

fun is_expansion :: "string option \<times> item \<Rightarrow> bool" where
  "is_expansion (name, Destructure r) = True"
| "is_expansion (name, Node e) = False"

text \<open>
  Modelled from the spec: the construction of a projection's output list. Naming a
  destructured result is refused when the list is built; the splicing rule applies when
  the list holds a destructure expansion; a list without one is kept as requested.
  The spec names no error for an analytic or reduction UDF that was not bound first, and
  the tests use such UDFs unbound, so no such check is made here.
\<close>

definition projection ::
  "schema \<Rightarrow> (string option \<times> item) list \<Rightarrow> error_kind + (string option \<times> expr) list" where
  "projection source requested =
     (if named_destructure requested
      then Inl (ExpressionError ''cannot name a destructured result'')
      else if list_ex is_expansion requested then splice_outputs source requested
      else Inr (appended [] (expand requested)))"

text \<open>
  Modelled from the spec: the output schema of an output list, the name of each entry
  with the type of its expression over the source schema.
\<close>

fun type_of :: "schema \<Rightarrow> expr \<Rightarrow> dtype option" where
  "type_of source (Column c) = map_of source c"
| "type_of source (UDFNode cat ins t h) = Some t"
| "type_of source (FieldOf node f) =
     (case type_of source node of
        Some (Struct flds) \<Rightarrow> map_of flds f
      | _ \<Rightarrow> None)"

definition output_schema ::
  "schema \<Rightarrow> (string option \<times> expr) list \<Rightarrow> (string option \<times> dtype option) list" where
  "output_schema source outputs = map (\<lambda>(n, e). (n, type_of source e)) outputs"

section \<open>Concrete inputs\<close>

text \<open>Exceptions of four classes.\<close>

definition translation_error :: py_exception where
  "translation_error =
     \<lparr>mro = [''TranslationError'', ''IbisError'', ''Exception'', ''BaseException'', ''object''],
      args = ''no translation rule''\<rparr>"

definition key_error :: py_exception where
  "key_error =
     \<lparr>mro = [''KeyError'', ''LookupError'', ''Exception'', ''BaseException'', ''object''],
      args = ''missing''\<rparr>"

definition runtime_error :: py_exception where
  "runtime_error =
     \<lparr>mro = [''RuntimeError'', ''Exception'', ''BaseException'', ''object''],
      args = ''temporary database missing''\<rparr>"

definition keyboard_interrupt :: py_exception where
  "keyboard_interrupt =
     \<lparr>mro = [''KeyboardInterrupt'', ''BaseException'', ''object''], args = []\<rparr>"

text \<open>
  A compiler that translates expression 0, has no rule for expression 1 and fails
  with a \<^verbatim>\<open>KeyError\<close> on any other.
\<close>

definition sample_compiler :: "(nat, unit, unit) compiler_module" where
  "sample_compiler =
     \<lparr>make_context = (\<lambda>p. Inr ()),
      to_sql = (\<lambda>x c. if x = 0 then Inr ''SELECT 1''
                       else if x = 1 then Inl translation_error
                       else Inl key_error)\<rparr>"

text \<open>
  Client modules over numbered connections and clients: every connection is number 7,
  and the client constructor either raises the given exception or returns the client
  with the connection's number.
\<close>

definition failing_client :: "py_exception \<Rightarrow> (nat, nat, unit) client_module" where
  "failing_client e =
     \<lparr>ImpalaConnection = (\<lambda>n p. Inr 7), ImpalaClient = (\<lambda>c h. Inl e), close = (\<lambda>c. None)\<rparr>"

definition working_client :: "(nat, nat, unit) client_module" where
  "working_client =
     \<lparr>ImpalaConnection = (\<lambda>n p. Inr 7), ImpalaClient = (\<lambda>c h. Inr c), close = (\<lambda>c. None)\<rparr>"

definition fresh_process :: "(nat, nat) process" where
  "fresh_process =
     \<lparr>options = (\<lambda>k. if k = ''default_backend'' then PyNone else Setting ''unset''),
      close_calls = []\<rparr>"

definition bound_process :: "(nat, nat) process" where
  "bound_process =
     \<lparr>options = (\<lambda>k. if k = ''default_backend'' then Client 3 else Setting ''unset''),
      close_calls = []\<rparr>"

text \<open>
  The table \<^verbatim>\<open>functional_alltypes\<close> of the tests, with the schema that the docstring of
  the PostgreSQL backend's \<^verbatim>\<open>connect\<close> prints.
\<close>

definition alltypes :: schema where
  "alltypes =
     [(''index'', Primitive ''int64''), (''Unnamed: 0'', Primitive ''int64''),
      (''id'', Primitive ''int32''), (''bool_col'', Primitive ''boolean''),
      (''tinyint_col'', Primitive ''int16''), (''smallint_col'', Primitive ''int16''),
      (''int_col'', Primitive ''int32''), (''bigint_col'', Primitive ''int64''),
      (''float_col'', Primitive ''float32''), (''double_col'', Primitive ''float64''),
      (''date_string_col'', Primitive ''string''), (''string_col'', Primitive ''string''),
      (''timestamp_col'', Primitive ''timestamp''), (''year'', Primitive ''int32''),
      (''month'', Primitive ''int32'')]"

text \<open>
  The UDFs \<^verbatim>\<open>add_one_struct\<close> and \<^verbatim>\<open>overwrite_struct_elementwise\<close> of the tests, and
  the node each makes when called on \<^verbatim>\<open>alltypes['double_col']\<close>.
\<close>

definition add_one_fields :: schema where
  "add_one_fields = [(''col1'', Primitive ''float64''), (''col2'', Primitive ''float64'')]"

definition add_one_struct :: udf_descriptor where
  "add_one_struct =
     \<lparr>category = Elementwise, input_types = [Primitive ''float64''],
      output_type = Struct add_one_fields, function_handle = 0\<rparr>"

definition add_one_node :: expr where
  "add_one_node = UDFNode Elementwise [Column ''double_col''] (Struct add_one_fields) 0"

definition overwrite_fields :: schema where
  "overwrite_fields = [(''double_col'', Primitive ''float64''), (''col2'', Primitive ''float64'')]"

definition overwrite_struct_elementwise :: udf_descriptor where
  "overwrite_struct_elementwise =
     \<lparr>category = Elementwise, input_types = [Primitive ''float64''],
      output_type = Struct overwrite_fields, function_handle = 1\<rparr>"

definition overwrite_node :: expr where
  "overwrite_node = UDFNode Elementwise [Column ''double_col''] (Struct overwrite_fields) 1"

section \<open>Properties of \<^verbatim>\<open>verify\<close>\<close>

text \<open>
  Claim C2. For every expression and parameter binding, \<^verbatim>\<open>verify\<close> returns \<open>True\<close> when
  \<^verbatim>\<open>compile\<close> succeeds and \<open>False\<close> when \<^verbatim>\<open>compile\<close> raises an instance of
  \<^verbatim>\<open>TranslationError\<close>; any other exception of \<^verbatim>\<open>compile\<close> leaves \<^verbatim>\<open>verify\<close> as it
  is, and \<^verbatim>\<open>verify\<close> returns a value in no other case.
\<close>

theorem verify_probe:
  "(\<forall>sql. compile m x p = Inr sql \<longrightarrow> verify m x p = Inr True) \<and>
   (\<forall>e. compile m x p = Inl e \<and> isinstance e ''TranslationError'' \<longrightarrow>
        verify m x p = Inr False) \<and>
   (\<forall>e. compile m x p = Inl e \<and> \<not> isinstance e ''TranslationError'' \<longrightarrow>
        verify m x p = Inl e) \<and>
   (\<forall>b. verify m x p = Inr b \<longrightarrow>
        (if b then \<exists>sql. compile m x p = Inr sql
         else \<exists>e. compile m x p = Inl e \<and> isinstance e ''TranslationError''))"
  by (auto simp: verify_def split: sum.splits if_splits)

theorem verify_probe_witness:
  "compile sample_compiler 0 None = Inr ''SELECT 1'' \<and>
   verify sample_compiler 0 None = Inr True \<and>
   compile sample_compiler 1 None = Inl translation_error \<and>
   isinstance translation_error ''TranslationError'' \<and>
   verify sample_compiler 1 None = Inr False \<and>
   compile sample_compiler 2 None = Inl key_error \<and>
   \<not> isinstance key_error ''TranslationError'' \<and>
   verify sample_compiler 2 None = Inl key_error"
proof -
  have c0: "compile sample_compiler 0 None = Inr ''SELECT 1''"
    by (simp add: compile_def sample_compiler_def)
  have c1: "compile sample_compiler 1 None = Inl translation_error"
    by (simp add: compile_def sample_compiler_def)
  have c2: "compile sample_compiler 2 None = Inl key_error"
    by (simp add: compile_def sample_compiler_def)
  have i1: "isinstance translation_error ''TranslationError''"
    by (simp add: isinstance_def translation_error_def)
  have i2: "\<not> isinstance key_error ''TranslationError''"
    by (simp add: isinstance_def key_error_def)
  from verify_probe [of sample_compiler 0 None] c0
  have v0: "verify sample_compiler 0 None = Inr True" by blast
  from verify_probe [of sample_compiler 1 None] c1 i1
  have v1: "verify sample_compiler 1 None = Inr False" by blast
  from verify_probe [of sample_compiler 2 None] c2 i2
  have v2: "verify sample_compiler 2 None = Inl key_error" by blast
  from c0 c1 c2 i1 i2 v0 v1 v2 show ?thesis by (intro conjI)
qed

section \<open>Properties of \<^verbatim>\<open>connect\<close>\<close>

text \<open>
  Claim C9, as the code has it. When the connection is established and the construction
  of the client raises an instance of \<^verbatim>\<open>Exception\<close>, \<^verbatim>\<open>connect\<close> calls \<^verbatim>\<open>close\<close> on that
  connection and leaves the options alone; the exception that reaches the caller is the
  original one, provided \<^verbatim>\<open>close\<close> itself returns.
\<close>

theorem connect_closes_on_Exception:
  assumes "ImpalaConnection m (pool_size a) (params_of a) = Inr con"
    and "ImpalaClient m con (hdfs_client a) = Inl e"
    and "isinstance e ''Exception''"
  shows "close_calls (snd (connect m a s)) = close_calls s @ [con] \<and>
         options (snd (connect m a s)) = options s \<and>
         (close m con = None \<longrightarrow> fst (connect m a s) = Inl e)"
  using assms by (simp add: connect_def split: option.splits)

theorem connect_closes_on_Exception_witness:
  "ImpalaConnection (failing_client runtime_error) (pool_size default_args)
     (params_of default_args) = Inr 7 \<and>
   ImpalaClient (failing_client runtime_error) 7 (hdfs_client default_args) = Inl runtime_error \<and>
   isinstance runtime_error ''Exception'' \<and>
   close (failing_client runtime_error) 7 = None \<and>
   close_calls (snd (connect (failing_client runtime_error) default_args fresh_process)) = [7] \<and>
   fst (connect (failing_client runtime_error) default_args fresh_process) = Inl runtime_error"
proof -
  have h1: "ImpalaConnection (failing_client runtime_error) (pool_size default_args)
              (params_of default_args) = Inr 7"
    by (simp add: failing_client_def)
  have h2: "ImpalaClient (failing_client runtime_error) 7 (hdfs_client default_args) = Inl runtime_error"
    by (simp add: failing_client_def)
  have h3: "isinstance runtime_error ''Exception''"
    by (simp add: isinstance_def runtime_error_def)
  have h4: "close (failing_client runtime_error) 7 = None"
    by (simp add: failing_client_def)
  have h5: "close_calls fresh_process = []"
    by (simp add: fresh_process_def)
  from connect_closes_on_Exception [OF h1 h2 h3, of fresh_process] h4 h5
  show ?thesis using h1 h2 h3 by simp
qed

text \<open>
  Claim C9, as stated, fails for an exception outside \<^verbatim>\<open>Exception\<close>. A
  \<^verbatim>\<open>KeyboardInterrupt\<close> raised while the client is constructed passes the handler: it
  reaches the caller and \<^verbatim>\<open>close\<close> was called on no connection.
\<close>

theorem connect_leaks_on_KeyboardInterrupt:
  "ImpalaConnection (failing_client keyboard_interrupt) (pool_size default_args)
     (params_of default_args) = Inr 7 \<and>
   ImpalaClient (failing_client keyboard_interrupt) 7 (hdfs_client default_args) =
     Inl keyboard_interrupt \<and>
   fst (connect (failing_client keyboard_interrupt) default_args fresh_process) =
     Inl keyboard_interrupt \<and>
   close_calls (snd (connect (failing_client keyboard_interrupt) default_args fresh_process)) = []"
  by (simp add: connect_def failing_client_def isinstance_def keyboard_interrupt_def
      fresh_process_def)

text \<open>
  Claim C10. After a successful \<^verbatim>\<open>connect\<close>, the option \<^verbatim>\<open>default_backend\<close> holds the
  new client if it was \<^verbatim>\<open>None\<close> before and is unchanged otherwise; every other option
  is unchanged, and nothing was closed.
\<close>

theorem connect_default_backend:
  assumes "connect m a s = (Inr client, s')"
  shows "(options s ''default_backend'' = PyNone \<longrightarrow>
            options s' ''default_backend'' = Client client) \<and>
         (options s ''default_backend'' \<noteq> PyNone \<longrightarrow>
            options s' ''default_backend'' = options s ''default_backend'') \<and>
         (\<forall>k. k \<noteq> ''default_backend'' \<longrightarrow> options s' k = options s k) \<and>
         close_calls s' = close_calls s"
  using assms by (auto simp: connect_def split: sum.splits option.splits if_splits)

theorem connect_default_backend_witness:
  "connect working_client default_args fresh_process =
     (Inr 7, fresh_process\<lparr>options := (options fresh_process)(''default_backend'' := Client 7)\<rparr>) \<and>
   options fresh_process ''default_backend'' = PyNone \<and>
   options (snd (connect working_client default_args fresh_process)) ''default_backend'' = Client 7 \<and>
   options (snd (connect working_client default_args fresh_process)) ''temp_db'' =
     options fresh_process ''temp_db'' \<and>
   connect working_client default_args bound_process = (Inr 7, bound_process) \<and>
   options (snd (connect working_client default_args bound_process)) ''default_backend'' = Client 3"
proof -
  have c1: "connect working_client default_args fresh_process =
     (Inr 7, fresh_process\<lparr>options := (options fresh_process)(''default_backend'' := Client 7)\<rparr>)"
    by (simp add: connect_def working_client_def fresh_process_def)
  have c2: "connect working_client default_args bound_process = (Inr 7, bound_process)"
    by (simp add: connect_def working_client_def bound_process_def)
  have u: "options fresh_process ''default_backend'' = PyNone"
    by (simp add: fresh_process_def)
  have b: "options bound_process ''default_backend'' = Client 3"
    by (simp add: bound_process_def)
  have t: "''temp_db'' \<noteq> ''default_backend''"
    by simp
  have nb: "options bound_process ''default_backend'' \<noteq> PyNone"
    by (simp add: b)
  have r1: "options (snd (connect working_client default_args fresh_process)) ''default_backend'' = Client 7"
    using connect_default_backend [OF c1, THEN conjunct1, THEN mp, OF u]
    by (simp only: c1 snd_conv)
  have r2: "options (snd (connect working_client default_args fresh_process)) ''temp_db'' =
              options fresh_process ''temp_db''"
    using connect_default_backend [OF c1, THEN conjunct2, THEN conjunct2, THEN conjunct1,
        THEN spec, THEN mp, OF t]
    by (simp only: c1 snd_conv)
  have r3: "options (snd (connect working_client default_args bound_process)) ''default_backend'' = Client 3"
    using connect_default_backend [OF c2, THEN conjunct2, THEN conjunct1, THEN mp, OF nb] b
    by (simp only: c2 snd_conv)
  from c1 u r1 r2 c2 r3 show ?thesis by (intro conjI)
qed

section \<open>Properties of the destructure rewriter\<close>

lemma named_destructure_iff:
  "named_destructure requested \<longleftrightarrow> (\<exists>n r. (Some n, Destructure r) \<in> set requested)"
  by (induction requested rule: named_destructure.induct) auto

lemma in_place_miss: "c \<notin> fst ` set flds \<Longrightarrow> in_place flds c = (Some c, Column c)"
  by (simp add: in_place_def map_of_eq_None_iff [THEN iffD2])

lemma in_place_untouched:
  "set cols \<inter> fst ` set flds = {} \<Longrightarrow>
   map (in_place flds) cols = map (\<lambda>c. (Some c, Column c)) cols"
proof (rule map_cong [OF refl])
  fix c
  assume "set cols \<inter> fst ` set flds = {}" and "c \<in> set cols"
  then have "c \<notin> fst ` set flds" by blast
  then show "in_place flds c = (Some c, Column c)" by (rule in_place_miss)
qed

lemma appended_new:
  "fst ` set flds \<inter> set cols = {} \<Longrightarrow>
   appended cols (map (\<lambda>(f, e). Expanded f e) flds) = map (\<lambda>(f, e). (Some f, e)) flds"
  by (induction flds) auto

lemma expanded_fields_map: "expanded_fields (map (\<lambda>(f, e). Expanded f e) flds) = flds"
  by (induction flds) auto

lemma explicit_names_map: "explicit_names (map (\<lambda>(f, e). Expanded f e) flds) = []"
  by (induction flds) auto

text \<open>
  Claim C5. A requested output list that binds an explicit name to a destructure
  expansion is refused with an \<open>ExpressionError\<close> saying that a destructured result
  cannot be named, whatever else the list holds.
\<close>

theorem projection_rejects_named_destructure:
  "(Some n, Destructure r) \<in> set requested \<Longrightarrow>
   projection source requested = Inl (ExpressionError ''cannot name a destructured result'')"
  by (auto simp: projection_def named_destructure_iff)

theorem projection_rejects_named_destructure_witness:
  "(Some ''new_struct'', Destructure (Destructured add_one_node add_one_fields))
     \<in> set [(Some ''new_struct'', Destructure (Destructured add_one_node add_one_fields))] \<and>
   projection alltypes [(Some ''new_struct'', Destructure (Destructured add_one_node add_one_fields))] =
     Inl (ExpressionError ''cannot name a destructured result'')"
proof -
  have h: "(Some ''new_struct'', Destructure (Destructured add_one_node add_one_fields))
     \<in> set [(Some ''new_struct'', Destructure (Destructured add_one_node add_one_fields))]"
    by simp
  from h projection_rejects_named_destructure [OF h, of alltypes] show ?thesis
    by (intro conjI)
qed

text \<open>
  Claim C6. A struct-output UDF is called and its destructure is the one requested
  output of a projection. If the struct's field names are distinct and none of them is
  a column name of the source, the output list is the source columns, each unchanged,
  followed by the struct's fields in declaration order, and the output schema is the
  source schema followed by the struct's field schema.
\<close>

theorem destructure_without_collision:
  assumes inv: "invoke d exprs kw = Inr v"
    and out: "output_type d = Struct flds"
    and df: "distinct (map fst flds)"
    and ds: "distinct (map fst source)"
    and nc: "set (map fst flds) \<inter> set (map fst source) = {}"
  shows "v = Destructure (Destructured
                (UDFNode (category d) exprs (Struct flds) (function_handle d)) flds) \<and>
         projection source [(None, v)] =
           Inr (map (\<lambda>(c, t). (Some c, Column c)) source @
                map (\<lambda>(f, t). (Some f,
                       FieldOf (UDFNode (category d) exprs (Struct flds) (function_handle d)) f))
                  flds) \<and>
         map_sum id (output_schema source) (projection source [(None, v)]) =
           Inr (map (\<lambda>(c, t). (Some c, Some t)) (source @ flds))"
proof -
  let ?node = "UDFNode (category d) exprs (Struct flds) (function_handle d)"
  let ?fs = "map (\<lambda>(f, t). (f, FieldOf ?node f)) flds"
  have v: "v = Destructure (Destructured ?node flds)"
    using inv out by (simp add: invoke_def split: if_splits)
  have names: "map fst ?fs = map fst flds"
    by (induction flds) auto
  have img: "fst ` set ?fs = set (map fst flds)"
    using names by (metis list.set_map)
  have ex: "expand [(None, v)] = map (\<lambda>(f, e). Expanded f e) ?fs"
    by (simp add: v)
  have ef: "expanded_fields (expand [(None, v)]) = ?fs"
    by (simp only: ex expanded_fields_map)
  have en: "explicit_names (expand [(None, v)]) = []"
    by (simp only: ex explicit_names_map)
  have efn: "map fst (expanded_fields (expand [(None, v)])) = map fst flds"
    by (simp only: ef names)
  have nconf: "\<not> conflict (expand [(None, v)])"
    unfolding conflict_def efn en using df by (simp add: list_ex_iff)
  have ip: "map (in_place ?fs) (map fst source) = map (\<lambda>c. (Some c, Column c)) (map fst source)"
    by (rule in_place_untouched) (use nc img in auto)
  have ap: "appended (map fst source) (map (\<lambda>(f, e). Expanded f e) ?fs) =
            map (\<lambda>(f, e). (Some f, e)) ?fs"
    by (rule appended_new) (use nc img in auto)
  have sp: "splice_outputs source [(None, v)] =
           Inr (map (in_place ?fs) (map fst source) @
                appended (map fst source) (expand [(None, v)]))"
    unfolding splice_outputs_def Let_def using nconf by (simp only: if_False ef)
  have nd: "\<not> named_destructure [(None, v)]"
    by (simp add: v)
  have ie: "list_ex is_expansion [(None, v)]"
    by (simp add: v)
  have p0: "projection source [(None, v)] = splice_outputs source [(None, v)]"
    unfolding projection_def using nd ie by (simp only: if_True if_False)
  have m1: "map (\<lambda>c. (Some c, Column c)) (map fst source) =
            map (\<lambda>(c, t). (Some c, Column c)) source"
    by (simp add: split_def comp_def)
  have m2: "map (\<lambda>(f, e). (Some f, e)) ?fs = map (\<lambda>(f, t). (Some f, FieldOf ?node f)) flds"
    by (simp add: split_def comp_def)
  have p: "projection source [(None, v)] =
           Inr (map (\<lambda>(c, t). (Some c, Column c)) source @
                map (\<lambda>(f, t). (Some f, FieldOf ?node f)) flds)"
    by (simp only: p0 sp ex ip ap m1 m2)
  have ts: "map (\<lambda>(n, e). (n, type_of source e)) (map (\<lambda>(c, t). (Some c, Column c)) source) =
            map (\<lambda>(c, t). (Some c, Some t)) source"
    using ds by (auto simp: split_def)
  have tf: "map (\<lambda>(n, e). (n, type_of source e))
              (map (\<lambda>(f, t). (Some f, FieldOf ?node f)) flds) =
            map (\<lambda>(c, t). (Some c, Some t)) flds"
    using df by (auto simp: split_def)
  show ?thesis
    using v p ts tf by (simp add: output_schema_def)
qed

theorem destructure_without_collision_witness:
  "invoke add_one_struct [Column ''double_col''] [] =
     Inr (Destructure (Destructured add_one_node add_one_fields)) \<and>
   output_type add_one_struct = Struct add_one_fields \<and>
   distinct (map fst add_one_fields) \<and>
   distinct (map fst alltypes) \<and>
   set (map fst add_one_fields) \<inter> set (map fst alltypes) = {} \<and>
   projection alltypes [(None, Destructure (Destructured add_one_node add_one_fields))] =
     Inr (map (\<lambda>(c, t). (Some c, Column c)) alltypes @
          [(Some ''col1'', FieldOf add_one_node ''col1''),
           (Some ''col2'', FieldOf add_one_node ''col2'')]) \<and>
   map_sum id (output_schema alltypes)
     (projection alltypes [(None, Destructure (Destructured add_one_node add_one_fields))]) =
     Inr (map (\<lambda>(c, t). (Some c, Some t)) (alltypes @ add_one_fields))"
proof -
  have h1: "invoke add_one_struct [Column ''double_col''] [] =
     Inr (Destructure (Destructured add_one_node add_one_fields))"
    by (simp add: invoke_def add_one_struct_def add_one_node_def)
  have h2: "output_type add_one_struct = Struct add_one_fields"
    by (simp add: add_one_struct_def)
  have h3: "distinct (map fst add_one_fields)"
    by (simp add: add_one_fields_def)
  have h4: "distinct (map fst alltypes)"
    by (simp add: alltypes_def)
  have h5: "set (map fst add_one_fields) \<inter> set (map fst alltypes) = {}"
    by (simp add: add_one_fields_def alltypes_def)
  have n: "UDFNode (category add_one_struct) [Column ''double_col''] (Struct add_one_fields)
             (function_handle add_one_struct) = add_one_node"
    by (simp add: add_one_struct_def add_one_node_def)
  have f: "map (\<lambda>(f, t). (Some f, FieldOf add_one_node f)) add_one_fields =
           [(Some ''col1'', FieldOf add_one_node ''col1''),
            (Some ''col2'', FieldOf add_one_node ''col2'')]"
    by (simp add: add_one_fields_def)
  note r = destructure_without_collision [OF h1 h2 h3 h4 h5, unfolded n f]
  from h1 h2 h3 h4 h5 r [THEN conjunct2, THEN conjunct1] r [THEN conjunct2, THEN conjunct2]
  show ?thesis by (intro conjI)
qed

text \<open>
  The splicing rule at the overwrite scenario of the tests,
  \<^verbatim>\<open>alltypes.mutate(overwrite_struct_elementwise(alltypes['double_col']).destructure())\<close>:
  \<^verbatim>\<open>double_col\<close> keeps its place, the tenth, with the field's expression, and \<^verbatim>\<open>col2\<close>
  comes last, after \<^verbatim>\<open>month\<close>. This is the order that claim C1 asks for. The tests
  compare the executed result with it up to the order of the columns only
  (\<^verbatim>\<open>check_like=True\<close>), and say why: the implementation materialises the new columns
  directly after the overwritten ones.
\<close>

lemma overwrite_scenario_by_the_rule:
  "projection alltypes [(None, Destructure (Destructured overwrite_node overwrite_fields))] =
     Inr (map (\<lambda>c. (Some c, Column c))
            [''index'', ''Unnamed: 0'', ''id'', ''bool_col'', ''tinyint_col'', ''smallint_col'',
             ''int_col'', ''bigint_col'', ''float_col''] @
          [(Some ''double_col'', FieldOf overwrite_node ''double_col'')] @
          map (\<lambda>c. (Some c, Column c))
            [''date_string_col'', ''string_col'', ''timestamp_col'', ''year'', ''month''] @
          [(Some ''col2'', FieldOf overwrite_node ''col2'')])"
  by (simp add: projection_def splice_outputs_def conflict_def in_place_def alltypes_def
      overwrite_fields_def)

end
